theory Spec2Isabelle
  imports Complex_Main
begin

section \<open>Values of the host language\<close>

text \<open>
  The repository is JavaScript. Strings are modelled as HOL strings (code units below
  256), numbers keep the exact mathematical value of the literal they were read from
  (rounding to a double is not modelled), objects are association lists of their own
  properties in insertion order.
\<close>

datatype jsnum = NaN | Infinity | NegInfinity | Finite rat

datatype jsval =
    JUndefined
  | JNull
  | JBool bool
  | JNum jsnum
  | JStr string
  | JArr "jsval list"
  | JObj "(string \<times> jsval) list"

datatype js_error = TypeError | InvalidStateError

section \<open>The platform's WebSocket\<close>

record websocket =
  url :: string
  readyState :: nat
  outbox :: "string list"

definition CONNECTING :: nat where "CONNECTING = 0"
definition OPEN :: nat where "OPEN = 1"
definition CLOSING :: nat where "CLOSING = 2"
definition CLOSED :: nat where "CLOSED = 3"

text \<open>\<^verbatim>\<open>new WebSocket(url)\<close>: the socket starts out connecting.\<close>

definition WebSocket :: "string \<Rightarrow> websocket" where
  "WebSocket u = \<lparr>url = u, readyState = CONNECTING, outbox = []\<rparr>"

text \<open>\<^verbatim>\<open>socket.close()\<close>: nothing on a closing or closed socket, otherwise the
  closing handshake starts.\<close>

definition ws_close :: "websocket \<Rightarrow> websocket" where
  "ws_close s =
     (if readyState s = CLOSING \<or> readyState s = CLOSED then s
      else s\<lparr>readyState := CLOSING\<rparr>)"

text \<open>\<^verbatim>\<open>socket.send(frame)\<close>: raises while connecting, queues the frame when
  open, discards it when closing or closed.\<close>

definition ws_send :: "websocket \<Rightarrow> string \<Rightarrow> js_error + websocket" where
  "ws_send s frame =
     (if readyState s = CONNECTING then Inl InvalidStateError
      else if readyState s = OPEN then Inr (s\<lparr>outbox := outbox s @ [frame]\<rparr>)
      else Inr s)"

text \<open>The platform's own transition: the connection is gone, \<open>readyState\<close> is 3 by
  the time the close event is delivered.\<close>

definition ws_closed :: "websocket \<Rightarrow> websocket" where
  "ws_closed s = s\<lparr>readyState := CLOSED\<rparr>"

section \<open>Dispatcher\<close>

subsection \<open>The event table\<close>

text \<open>
  Callbacks are opaque values compared by identity; invoking one is recorded as an
  effect. A callback is assumed not to reach back into the dispatcher while it runs.
\<close>

datatype timer_action = Reconnect

datatype 'cb effect =
    DocumentEvent string
  | Call 'cb jsval
  | SetTimeout timer_action "nat option"

record 'cb DispatcherEvent =
  eventName :: string
  callbacks :: "'cb list"

definition DispatcherEvent :: "string \<Rightarrow> 'cb DispatcherEvent" where
  "DispatcherEvent n = \<lparr>eventName = n, callbacks = []\<rparr>"

definition registerCallback :: "'cb DispatcherEvent \<Rightarrow> 'cb \<Rightarrow> 'cb DispatcherEvent" where
  "registerCallback e cb = e\<lparr>callbacks := callbacks e @ [cb]\<rparr>"

text \<open>\<^verbatim>\<open>Array.prototype.indexOf\<close>: the first position, or -1.\<close>

fun indexOf :: "'a list \<Rightarrow> 'a \<Rightarrow> int" where
  "indexOf [] y = -1"
| "indexOf (x # xs) y =
     (if x = y then 0 else (let i = indexOf xs y in if i = -1 then -1 else i + 1))"

text \<open>\<^verbatim>\<open>xs.splice(i, 1)\<close> for an index inside the array.\<close>

definition splice1 :: "'a list \<Rightarrow> nat \<Rightarrow> 'a list" where
  "splice1 xs i = take i xs @ drop (Suc i) xs"

definition unregisterCallback :: "'cb DispatcherEvent \<Rightarrow> 'cb \<Rightarrow> 'cb DispatcherEvent" where
  "unregisterCallback e cb =
     (let index = indexOf (callbacks e) cb in
      if index > -1 then e\<lparr>callbacks := splice1 (callbacks e) (nat index)\<rparr> else e)"

text \<open>\<^verbatim>\<open>fire(data)\<close> calls a copy of the list front to back.\<close>

definition fire :: "'cb DispatcherEvent \<Rightarrow> jsval \<Rightarrow> 'cb effect list" where
  "fire e data = map (\<lambda>callback. Call callback data) (callbacks e)"

text \<open>
  The table \<^verbatim>\<open>this.events = {}\<close> is an ordinary object: reading a key that is not
  an own property falls through to \<^verbatim>\<open>Object.prototype\<close>, whose members are all truthy
  and are not \<^verbatim>\<open>DispatcherEvent\<close>s.
\<close>

definition Object_prototype_names :: "string list" where
  "Object_prototype_names =
     [''constructor'', ''hasOwnProperty'', ''isPrototypeOf'', ''propertyIsEnumerable'',
      ''toLocaleString'', ''toString'', ''valueOf'', ''__proto__'',
      ''__defineGetter__'', ''__defineSetter__'', ''__lookupGetter__'', ''__lookupSetter__'']"

datatype 'e property = Undefined | Own 'e | Inherited

type_synonym 'cb event_table = "(string \<times> 'cb DispatcherEvent) list"

definition get_event :: "'cb event_table \<Rightarrow> string \<Rightarrow> 'cb DispatcherEvent property" where
  "get_event tbl n =
     (case map_of tbl n of
        Some e \<Rightarrow> Own e
      | None \<Rightarrow> if n \<in> set Object_prototype_names then Inherited else Undefined)"

text \<open>Assigning an existing own key keeps its place; a new key goes last.\<close>

fun set_event :: "'cb event_table \<Rightarrow> string \<Rightarrow> 'cb DispatcherEvent \<Rightarrow> 'cb event_table" where
  "set_event [] n e = [(n, e)]"
| "set_event ((k, v) # tbl) n e =
     (if k = n then (k, e) # tbl else (k, v) # set_event tbl n e)"

definition delete_event :: "'cb event_table \<Rightarrow> string \<Rightarrow> 'cb event_table" where
  "delete_event tbl n = filter (\<lambda>(k, v). k \<noteq> n) tbl"

subsection \<open>The dispatcher object\<close>

record dispatcher_state =
  reconnection :: bool
  reconnectionDelay :: nat

record 'cb Dispatcher =
  host :: string
  wss :: "websocket option"
  state :: dispatcher_state
  events :: "'cb event_table"

text \<open>The constructor; \<open>h\<close> is \<^verbatim>\<open>window.location.host\<close>.\<close>

definition Dispatcher :: "string \<Rightarrow> 'cb Dispatcher" where
  "Dispatcher h =
     \<lparr>host = h, wss = None,
      state = \<lparr>reconnection = True, reconnectionDelay = 1000\<rparr>,
      events = []\<rparr>"

text \<open>
  The close handler passes \<^verbatim>\<open>this.reconnectionDelay\<close> to the timer. The object has
  the properties \<^verbatim>\<open>host\<close>, \<^verbatim>\<open>wss\<close>, \<^verbatim>\<open>state\<close> and \<^verbatim>\<open>events\<close>; the delay is stored
  as \<^verbatim>\<open>this.state.reconnectionDelay\<close>, so this read finds no property and gives
  \<^verbatim>\<open>undefined\<close> (\<open>None\<close>).
\<close>

definition this_reconnectionDelay :: "('cb, 'm) Dispatcher_scheme \<Rightarrow> nat option" where
  "this_reconnectionDelay d = None"

text \<open>The platform's timer: a missing delay counts as 0 milliseconds.\<close>

definition timeout_ms :: "nat option \<Rightarrow> nat" where
  "timeout_ms delay = (case delay of None \<Rightarrow> 0 | Some ms \<Rightarrow> ms)"

subsection \<open>Strings, as the dispatcher uses them\<close>

text \<open>\<^verbatim>\<open>s.split(c)\<close> for a one-character separator: always at least one piece.\<close>

fun split :: "char \<Rightarrow> string \<Rightarrow> string list" where
  "split c [] = [[]]"
| "split c (x # xs) =
     (if x = c then [] # split c xs
      else (case split c xs of [] \<Rightarrow> [[x]] | w # ws \<Rightarrow> (x # w) # ws))"

text \<open>\<^verbatim>\<open>pieces.join(sep)\<close>.\<close>

fun join :: "string \<Rightarrow> string list \<Rightarrow> string" where
  "join sep [] = []"
| "join sep [x] = x"
| "join sep (x # y # ys) = x @ sep @ join sep (y # ys)"

definition backslash :: char where
  "backslash = CHR 0x5C"

text \<open>The character class of \<^verbatim>\<open>escaped\<close> in \<^verbatim>\<open>emit\<close>:
  \<^verbatim>\<open>. * + ? ^ = ! : $ { } ( ) | [ ] / \\<close>.\<close>

definition escaped_class :: "char list" where
  "escaped_class =
     [CHR ''.'', CHR ''*'', CHR ''+'', CHR ''?'', CHR ''^'', CHR ''='', CHR ''!'', CHR '':'',
      CHR ''$'', CHR ''{'', CHR ''}'', CHR ''('', CHR '')'', CHR ''|'', CHR ''['', CHR '']'',
      CHR ''/'', backslash]"

definition escaped :: "string \<Rightarrow> string" where
  "escaped s =
     concat (map (\<lambda>c. if c \<in> set escaped_class then [backslash, c] else [c]) s)"

subsection \<open>The platform's regular expressions, as far as \<^verbatim>\<open>emit\<close> builds them\<close>

text \<open>
  \<^verbatim>\<open>new RegExp("^" + body + "$")\<close> without flags. The model reads the sources made of
  literal characters, backslash escapes of punctuation and \<^verbatim>\<open>.*\<close>; any other use of
  a syntax character is outside it (\<open>None\<close>). Without the \<^verbatim>\<open>s\<close> flag the dot does not
  match a line terminator.
\<close>

datatype rx = Lit char | DotStar

definition syntax_characters :: "char list" where
  "syntax_characters =
     [CHR ''^'', CHR ''$'', backslash, CHR ''.'', CHR ''*'', CHR ''+'', CHR ''?'', CHR ''('',
      CHR '')'', CHR ''['', CHR '']'', CHR ''{'', CHR ''}'', CHR ''|'']"

fun rx_parse :: "string \<Rightarrow> rx list option" where
  "rx_parse [] = Some []"
| "rx_parse [c] = (if c \<in> set syntax_characters then None else Some [Lit c])"
| "rx_parse (c # c' # cs) =
     (if c = backslash then
        (if c' \<in> set escaped_class then map_option ((#) (Lit c')) (rx_parse cs) else None)
      else if c = CHR ''.'' \<and> c' = CHR ''*'' then map_option ((#) DotStar) (rx_parse cs)
      else if c \<in> set syntax_characters then None
      else map_option ((#) (Lit c)) (rx_parse (c' # cs)))"

definition RegExp :: "string \<Rightarrow> rx list option" where
  "RegExp source =
     (case source of
        [] \<Rightarrow> None
      | c # rest \<Rightarrow>
          if c = CHR ''^'' \<and> rest \<noteq> [] \<and> last rest = CHR ''$'' then rx_parse (butlast rest)
          else None)"

definition line_terminator :: "char \<Rightarrow> bool" where
  "line_terminator c = (c = CHR 0x0A \<or> c = CHR 0x0D)"

fun rx_match :: "rx list \<Rightarrow> string \<Rightarrow> bool" where
  "rx_match [] s = (s = [])"
| "rx_match (Lit c # r) s = (case s of [] \<Rightarrow> False | x # xs \<Rightarrow> x = c \<and> rx_match r xs)"
| "rx_match (DotStar # r) s =
     (rx_match r s \<or>
      (case s of [] \<Rightarrow> False | x # xs \<Rightarrow> \<not> line_terminator x \<and> rx_match (DotStar # r) xs))"

text \<open>\<^verbatim>\<open>new RegExp("^" + name.split("*").map(escaped).join(".*") + "$").test(eventName)\<close>\<close>

definition wildcard_source :: "string \<Rightarrow> string" where
  "wildcard_source name = ''^'' @ join ''.*'' (map escaped (split (CHR ''*'') name)) @ ''$''"

definition wildcard_test :: "string \<Rightarrow> string \<Rightarrow> bool" where
  "wildcard_test name evName =
     (case RegExp (wildcard_source name) of
        None \<Rightarrow> False
      | Some re \<Rightarrow> rx_match re evName)"

text \<open>The expression a wildcard pattern is meant to denote.\<close>

definition wildcard_rx :: "string \<Rightarrow> rx list" where
  "wildcard_rx p = map (\<lambda>c. if c = CHR ''*'' then DotStar else Lit c) p"

subsection \<open>\<^verbatim>\<open>Object.entries\<close>\<close>

text \<open>
  Own keys that are array indices (canonical decimal numerals below \<open>2\<^sup>3\<^sup>2 - 1\<close>) come
  first, in ascending numeric order; the other keys follow in insertion order.
\<close>

definition is_digit :: "char \<Rightarrow> bool" where
  "is_digit c = (c \<in> set ''0123456789'')"

definition digit_value :: "char \<Rightarrow> nat" where
  "digit_value c = of_char c - 48"

definition digits_value :: "string \<Rightarrow> nat" where
  "digits_value ds = foldl (\<lambda>acc c. 10 * acc + digit_value c) 0 ds"

definition is_array_index :: "string \<Rightarrow> bool" where
  "is_array_index k =
     (k \<noteq> [] \<and> list_all is_digit k \<and> (k = ''0'' \<or> hd k \<noteq> CHR ''0'') \<and>
      digits_value k < 4294967295)"

definition Object_entries :: "(string \<times> 'v) list \<Rightarrow> (string \<times> 'v) list" where
  "Object_entries obj =
     sort_key (\<lambda>(k, v). digits_value k) (filter (\<lambda>(k, v). is_array_index k) obj) @
     filter (\<lambda>(k, v). \<not> is_array_index k) obj"

subsection \<open>Publish and subscribe\<close>

text \<open>An operation's outcome: the effects it performed, and the error it threw, if any.\<close>

type_synonym 'cb outcome = "'cb effect list \<times> js_error option"

text \<open>
  \<^verbatim>\<open>emit(eventName, data)\<close>. An inherited member is truthy and has no \<^verbatim>\<open>fire\<close>, so
  the direct call throws before the wildcard loop.
\<close>

definition emit :: "('cb, 'm) Dispatcher_scheme \<Rightarrow> string \<Rightarrow> jsval \<Rightarrow> 'cb outcome" where
  "emit d evName data =
     (case get_event (events d) evName of
        Inherited \<Rightarrow> ([], Some TypeError)
      | event \<Rightarrow>
          ((case event of Own ev \<Rightarrow> fire ev data | _ \<Rightarrow> []) @
           concat (map (\<lambda>(name, e).
                     if CHR ''*'' \<in> set name \<and> wildcard_test name evName
                     then fire e data else [])
                   (Object_entries (events d))),
           None))"

text \<open>\<^verbatim>\<open>on(eventName, callback)\<close>: an inherited member has no \<^verbatim>\<open>registerCallback\<close>.\<close>

definition on ::
  "('cb, 'm) Dispatcher_scheme \<Rightarrow> string \<Rightarrow> 'cb \<Rightarrow> js_error + ('cb, 'm) Dispatcher_scheme" where
  "on d evName callback =
     (case get_event (events d) evName of
        Undefined \<Rightarrow>
          Inr (d\<lparr>events :=
                 set_event (events d) evName
                   (registerCallback (DispatcherEvent evName) callback)\<rparr>)
      | Own event \<Rightarrow>
          Inr (d\<lparr>events := set_event (events d) evName (registerCallback event callback)\<rparr>)
      | Inherited \<Rightarrow> Inl TypeError)"

text \<open>\<^verbatim>\<open>off(eventName, callback)\<close>: an inherited member has no \<^verbatim>\<open>callbacks\<close>, and
  \<^verbatim>\<open>indexOf\<close> of \<^verbatim>\<open>undefined\<close> throws.\<close>

definition off ::
  "('cb, 'm) Dispatcher_scheme \<Rightarrow> string \<Rightarrow> 'cb \<Rightarrow> js_error + ('cb, 'm) Dispatcher_scheme" where
  "off d evName callback =
     (case get_event (events d) evName of
        Undefined \<Rightarrow> Inr d
      | Inherited \<Rightarrow> Inl TypeError
      | Own event \<Rightarrow>
          if indexOf (callbacks event) callback > -1 then
            (let event' = unregisterCallback event callback in
             if length (callbacks event') = 0
             then Inr (d\<lparr>events := delete_event (events d) evName\<rparr>)
             else Inr (d\<lparr>events := set_event (events d) evName event'\<rparr>))
          else Inr d)"

text \<open>\<^verbatim>\<open>eventName in this.events\<close> also sees inherited members.\<close>

definition hasEvent :: "('cb, 'm) Dispatcher_scheme \<Rightarrow> string \<Rightarrow> bool" where
  "hasEvent d evName = (get_event (events d) evName \<noteq> Undefined)"

definition destroyEvent ::
  "('cb, 'm) Dispatcher_scheme \<Rightarrow> string \<Rightarrow> ('cb, 'm) Dispatcher_scheme" where
  "destroyEvent d evName = d\<lparr>events := delete_event (events d) evName\<rparr>"

subsection \<open>The connection\<close>

text \<open>\<^verbatim>\<open>connect()\<close> replaces the socket handle by a fresh socket and installs the
  handlers below on it.\<close>

definition connect :: "('cb, 'm) Dispatcher_scheme \<Rightarrow> ('cb, 'm) Dispatcher_scheme" where
  "connect d = d\<lparr>wss := Some (WebSocket (''wss://'' @ host d))\<rparr>"

definition onopen :: "('cb, 'm) Dispatcher_scheme \<Rightarrow> 'cb outcome" where
  "onopen d =
     (let (calls, err) = emit d ''wssConnect'' JUndefined
      in (DocumentEvent ''deck.wss.open'' # calls, err))"

text \<open>
  The close handler. The handler reads the dispatcher's current socket handle, and the timer
  is set after \<^verbatim>\<open>emit\<close> has returned.
\<close>

definition onclose :: "('cb, 'm) Dispatcher_scheme \<Rightarrow> 'cb outcome" where
  "onclose d =
     (let (calls, err) = emit d ''wssDisconnect'' JUndefined in
      case err of
        Some e \<Rightarrow> (DocumentEvent ''deck.wss.close'' # calls, Some e)
      | None \<Rightarrow>
          (DocumentEvent ''deck.wss.close'' # calls @
           (if reconnection (state d) \<and>
               (case wss d of None \<Rightarrow> True | Some s \<Rightarrow> readyState s = 3)
            then [SetTimeout Reconnect (this_reconnectionDelay d)] else []),
           None))"

text \<open>What the timer does when it fires: \<^verbatim>\<open>() => { this.connect() }\<close>.\<close>

fun timer_fires ::
  "('cb, 'm) Dispatcher_scheme \<Rightarrow> timer_action \<Rightarrow> ('cb, 'm) Dispatcher_scheme" where
  "timer_fires d Reconnect = connect d"

definition onerror ::
  "('cb, 'm) Dispatcher_scheme \<Rightarrow> ('cb, 'm) Dispatcher_scheme \<times> 'cb outcome" where
  "onerror d =
     (let (calls, err) = emit d ''wssDisconnect'' JUndefined in
      case err of
        Some e \<Rightarrow> (d, DocumentEvent ''deck.wss.error'' # calls, Some e)
      | None \<Rightarrow>
          (case wss d of
             None \<Rightarrow> (d, DocumentEvent ''deck.wss.error'' # calls, Some TypeError)
           | Some s \<Rightarrow>
               (d\<lparr>wss := Some (ws_close s)\<rparr>, DocumentEvent ''deck.wss.error'' # calls, None)))"

text \<open>
  \<^verbatim>\<open>disconnect()\<close>. The guard is \<^verbatim>\<open>this.wss?.readyState === this.wss?.OPEN\<close>: on a
  null handle both sides are \<^verbatim>\<open>undefined\<close>. The flag is written before \<^verbatim>\<open>close\<close> is
  called, so it stays written when the call throws.
\<close>

definition disconnect ::
  "('cb, 'm) Dispatcher_scheme \<Rightarrow> ('cb, 'm) Dispatcher_scheme \<times> js_error option" where
  "disconnect d =
     (if map_option readyState (wss d) = map_option (\<lambda>s. OPEN) (wss d) then
        (let d' = d\<lparr>state := (state d)\<lparr>reconnection := False\<rparr>\<rparr> in
         case wss d' of
           None \<Rightarrow> (d', Some TypeError)
         | Some s \<Rightarrow> (d'\<lparr>wss := Some (ws_close s)\<rparr>, None))
      else (d, None))"

text \<open>
  \<^verbatim>\<open>send(data)\<close>. \<open>JSON_stringify\<close> stands for the platform's serialiser on the
  values it serialises.
\<close>

definition send ::
  "('a \<Rightarrow> string) \<Rightarrow> ('cb, 'm) Dispatcher_scheme \<Rightarrow> 'a \<Rightarrow>
     ('cb, 'm) Dispatcher_scheme \<times> js_error option" where
  "send JSON_stringify d data =
     (case wss d of
        None \<Rightarrow> (d, None)
      | Some s \<Rightarrow>
          if readyState s = OPEN then
            (case ws_send s (JSON_stringify data) of
               Inl e \<Rightarrow> (d, Some e)
             | Inr s' \<Rightarrow> (d\<lparr>wss := Some s'\<rparr>, None))
          else (d, None))"

text \<open>The frames a dispatcher has handed to its socket.\<close>

definition transmitted :: "('cb, 'm) Dispatcher_scheme \<Rightarrow> string list" where
  "transmitted d = (case wss d of None \<Rightarrow> [] | Some s \<Rightarrow> outbox s)"

text \<open>The platform's step when the connection of the current socket ends.\<close>

definition socket_closes :: "('cb, 'm) Dispatcher_scheme \<Rightarrow> ('cb, 'm) Dispatcher_scheme" where
  "socket_closes d = d\<lparr>wss := map_option ws_closed (wss d)\<rparr>"

text \<open>A caller's sequence \<^verbatim>\<open>d.on(n, cb); d.off(n, cb)\<close>; a throw ends the sequence.\<close>

definition on_then_off ::
  "('cb, 'm) Dispatcher_scheme \<Rightarrow> string \<Rightarrow> 'cb \<Rightarrow>
     ('cb, 'm) Dispatcher_scheme \<times> js_error option" where
  "on_then_off d n cb =
     (case on d n cb of
        Inl e \<Rightarrow> (d, Some e)
      | Inr d1 \<Rightarrow> (case off d1 n cb of Inl e \<Rightarrow> (d1, Some e) | Inr d2 \<Rightarrow> (d2, None)))"

subsection \<open>Registration histories\<close>





text \<open>
  What a wildcard pattern stands for: every \<^verbatim>\<open>*\<close> of the pattern takes a run of
  characters without line terminators, every other character takes itself.
\<close>

fun glob :: "string \<Rightarrow> string \<Rightarrow> bool" where
  "glob [] s = (s = [])"
| "glob (c # p) s =
     (if c = CHR ''*''
      then (\<exists>k \<in> set [0 ..< Suc (length s)].
              (\<forall>x \<in> set (take k s). \<not> line_terminator x) \<and> glob p (drop k s))
      else (case s of [] \<Rightarrow> False | x # xs \<Rightarrow> x = c \<and> glob p xs))"


section \<open>Component\<close>

subsection \<open>Strings and numbers, as the attribute parser uses them\<close>

text \<open>\<^verbatim>\<open>s.trim()\<close> removes white space and line terminators from both ends.\<close>

definition is_whitespace :: "char \<Rightarrow> bool" where
  "is_whitespace c =
     (c \<in> set [CHR 0x09, CHR 0x0A, CHR 0x0B, CHR 0x0C, CHR 0x0D, CHR 0x20, CHR 0xA0])"

definition trimStart :: "string \<Rightarrow> string" where
  "trimStart s = dropWhile is_whitespace s"

definition trim :: "string \<Rightarrow> string" where
  "trim s = rev (dropWhile is_whitespace (rev (dropWhile is_whitespace s)))"

text \<open>\<^verbatim>\<open>s.toLowerCase()\<close> on the code units below 256.\<close>

definition lower_char :: "char \<Rightarrow> char" where
  "lower_char c =
     (let n = (of_char c :: nat) in
      if (65 \<le> n \<and> n \<le> 90) \<or> (192 \<le> n \<and> n \<le> 222 \<and> n \<noteq> 215)
      then char_of (n + 32) else c)"

definition toLowerCase :: "string \<Rightarrow> string" where
  "toLowerCase s = map lower_char s"

text \<open>
  Numeric literals. \<open>scan_exponent\<close> reads an optional exponent part and gives back the
  exponent and the rest; an \<^verbatim>\<open>e\<close> without digits is not an exponent.
\<close>

definition scan_exponent :: "string \<Rightarrow> int \<times> string" where
  "scan_exponent s =
     (case s of
        [] \<Rightarrow> (0, s)
      | e # r \<Rightarrow>
          if e = CHR ''e'' \<or> e = CHR ''E'' then
            (let (neg, r') =
                   (case r of
                      [] \<Rightarrow> (False, r)
                    | c # r2 \<Rightarrow>
                        if c = CHR ''-'' then (True, r2)
                        else if c = CHR ''+'' then (False, r2) else (False, r));
                 ds = takeWhile is_digit r'
             in if ds = [] then (0, s)
                else (if neg then - int (digits_value ds) else int (digits_value ds),
                      dropWhile is_digit r'))
          else (0, s))"

definition scale10 :: "rat \<Rightarrow> int \<Rightarrow> rat" where
  "scale10 x e = (if 0 \<le> e then x * 10 ^ nat e else x / 10 ^ nat (- e))"

text \<open>
  The longest prefix that is an unsigned decimal literal (digits, an optional fraction,
  an optional exponent; at least one digit before the exponent), with its value and the
  rest of the string.
\<close>

definition scan_decimal :: "string \<Rightarrow> (rat \<times> string) option" where
  "scan_decimal s =
     (let ip = takeWhile is_digit s;
          r1 = dropWhile is_digit s;
          (fp, r2) =
            (case r1 of
               [] \<Rightarrow> ([], r1)
             | c # r \<Rightarrow>
                 if c = CHR ''.'' then (takeWhile is_digit r, dropWhile is_digit r)
                 else ([], r1))
      in if ip = [] \<and> fp = [] then None
         else (let (e, r3) = scan_exponent r2
               in Some (scale10 (of_nat (digits_value ip) +
                                 of_nat (digits_value fp) / 10 ^ length fp) e, r3)))"

text \<open>An optional sign in front of a literal.\<close>

definition scan_sign :: "string \<Rightarrow> bool \<times> string" where
  "scan_sign s =
     (case s of
        [] \<Rightarrow> (False, s)
      | c # r \<Rightarrow>
          if c = CHR ''-'' then (True, r) else if c = CHR ''+'' then (False, r) else (False, s))"

text \<open>\<^verbatim>\<open>parseFloat(s)\<close>: the number at the start of the string, \<^verbatim>\<open>NaN\<close> if there is
  none.\<close>

definition parseFloat :: "string \<Rightarrow> jsnum" where
  "parseFloat s =
     (let (neg, u) = scan_sign (trimStart s) in
      if take 8 u = ''Infinity'' then (if neg then NegInfinity else Infinity)
      else (case scan_decimal u of
              None \<Rightarrow> NaN
            | Some (v, rest) \<Rightarrow> Finite (if neg then - v else v)))"

text \<open>Binary, octal and hexadecimal integer literals: \<^verbatim>\<open>0b\<close>, \<^verbatim>\<open>0o\<close>, \<^verbatim>\<open>0x\<close>.\<close>

definition based_digit :: "char \<Rightarrow> nat option" where
  "based_digit c =
     (let n = (of_char c :: nat) in
      if 48 \<le> n \<and> n \<le> 57 then Some (n - 48)
      else if 97 \<le> n \<and> n \<le> 102 then Some (n - 87)
      else if 65 \<le> n \<and> n \<le> 70 then Some (n - 55)
      else None)"

definition is_based_digit :: "nat \<Rightarrow> char \<Rightarrow> bool" where
  "is_based_digit b c = (case based_digit c of None \<Rightarrow> False | Some v \<Rightarrow> v < b)"

definition based_value :: "nat \<Rightarrow> string \<Rightarrow> nat" where
  "based_value b ds =
     foldl (\<lambda>acc c. b * acc + (case based_digit c of None \<Rightarrow> 0 | Some v \<Rightarrow> v)) 0 ds"

definition radix_of :: "char \<Rightarrow> nat option" where
  "radix_of c =
     (if c = CHR ''x'' \<or> c = CHR ''X'' then Some 16
      else if c = CHR ''o'' \<or> c = CHR ''O'' then Some 8
      else if c = CHR ''b'' \<or> c = CHR ''B'' then Some 2
      else None)"

definition non_decimal_literal :: "string \<Rightarrow> nat option" where
  "non_decimal_literal t =
     (case t of
        z # x # ds \<Rightarrow>
          (case radix_of x of
             None \<Rightarrow> None
           | Some b \<Rightarrow>
               if z = CHR ''0'' \<and> ds \<noteq> [] \<and> list_all (is_based_digit b) ds
               then Some (based_value b ds) else None)
      | _ \<Rightarrow> None)"

text \<open>
  \<^verbatim>\<open>Number(s)\<close> for a string: the whole trimmed string has to be a literal; the empty
  string is 0.
\<close>

definition StringToNumber :: "string \<Rightarrow> jsnum" where
  "StringToNumber s =
     (let t = trim s in
      if t = [] then Finite 0
      else (case non_decimal_literal t of
              Some v \<Rightarrow> Finite (of_nat v)
            | None \<Rightarrow>
                (let (neg, u) = scan_sign t in
                 if u = ''Infinity'' then (if neg then NegInfinity else Infinity)
                 else (case scan_decimal u of
                         None \<Rightarrow> NaN
                       | Some (v, rest) \<Rightarrow>
                           if rest = [] then Finite (if neg then - v else v) else NaN))))"

text \<open>\<^verbatim>\<open>isNaN(s)\<close> converts its argument to a number first.\<close>

definition isNaN :: "string \<Rightarrow> bool" where
  "isNaN s = (StringToNumber s = NaN)"

subsection \<open>Objects\<close>

text \<open>
  \<^verbatim>\<open>obj[key] = v\<close> on an ordinary object: an existing own key keeps its place, a new
  key goes last, and the key \<^verbatim>\<open>__proto__\<close> reaches the inherited setter and creates no
  own property.
\<close>

fun put :: "(string \<times> 'v) list \<Rightarrow> string \<Rightarrow> 'v \<Rightarrow> (string \<times> 'v) list" where
  "put [] k v = [(k, v)]"
| "put ((k', v') # obj) k v = (if k' = k then (k', v) # obj else (k', v') # put obj k v)"

definition set_property :: "(string \<times> 'v) list \<Rightarrow> string \<Rightarrow> 'v \<Rightarrow> (string \<times> 'v) list" where
  "set_property obj k v = (if k = ''__proto__'' then obj else put obj k v)"

text \<open>The decimal numeral of an index.\<close>

fun decimal :: "nat \<Rightarrow> string" where
  "decimal n =
     (if n < 10 then [char_of (48 + n)]
      else decimal (n div 10) @ [char_of (48 + n mod 10)])"

text \<open>
  The own enumerable properties a spread \<^verbatim>\<open>{...v}\<close> copies: those of an object, the
  indexed elements of an array or string, nothing for any other value.
\<close>

definition own_enumerable :: "jsval \<Rightarrow> (string \<times> jsval) list" where
  "own_enumerable v =
     (case v of
        JObj props \<Rightarrow> props
      | JArr xs \<Rightarrow> zip (map decimal [0 ..< length xs]) xs
      | JStr s \<Rightarrow> zip (map decimal [0 ..< length s]) (map (\<lambda>c. JStr [c]) s)
      | _ \<Rightarrow> [])"

text \<open>\<^verbatim>\<open>{...a, ...b}\<close>: the properties of \<open>b\<close> are defined over those of \<open>a\<close>.\<close>

definition spread :: "(string \<times> jsval) list \<Rightarrow> jsval \<Rightarrow> (string \<times> jsval) list" where
  "spread a b = foldl (\<lambda>acc (k, v). put acc k v) a (own_enumerable b)"

text \<open>\<^verbatim>\<open>Object.assign(target, source)\<close> sets each own property of the source.\<close>

definition Object_assign ::
  "(string \<times> jsval) list \<Rightarrow> (string \<times> jsval) list \<Rightarrow> (string \<times> jsval) list" where
  "Object_assign target source = foldl (\<lambda>acc (k, v). set_property acc k v) target source"

text \<open>Truthiness.\<close>

fun truthy :: "jsval \<Rightarrow> bool" where
  "truthy JUndefined = False"
| "truthy JNull = False"
| "truthy (JBool b) = b"
| "truthy (JNum x) = (x \<noteq> NaN \<and> x \<noteq> Finite 0)"
| "truthy (JStr s) = (s \<noteq> [])"
| "truthy (JArr xs) = True"
| "truthy (JObj props) = True"

subsection \<open>The element of a component\<close>

text \<open>
  What the component reads of its DOM element: the attributes, the class list, and the
  listeners on the event's path, each with the event type it listens for and whether it
  calls \<^verbatim>\<open>preventDefault()\<close>.
\<close>

record element =
  attributes :: "(string \<times> string) list"
  classList :: "string list"
  listeners :: "(string \<times> bool) list"

definition hasAttribute :: "element \<Rightarrow> string \<Rightarrow> bool" where
  "hasAttribute el a = (map_of (attributes el) a \<noteq> None)"

definition getAttribute :: "element \<Rightarrow> string \<Rightarrow> string option" where
  "getAttribute el a = map_of (attributes el) a"

text \<open>
  \<^verbatim>\<open>el.dispatchEvent(event)\<close> for a cancelable event: \<^verbatim>\<open>false\<close> exactly when a
  listener for that type has called \<^verbatim>\<open>preventDefault()\<close>, which is also what
  \<^verbatim>\<open>event.defaultPrevented\<close> then says.
\<close>

definition canceled :: "element \<Rightarrow> string \<Rightarrow> bool" where
  "canceled el evType = ((evType, True) \<in> set (listeners el))"

definition dom_dispatchEvent :: "element \<Rightarrow> string \<Rightarrow> bool \<times> bool" where
  "dom_dispatchEvent el evType = (\<not> canceled el evType, canceled el evType)"

subsection \<open>The attribute parser\<close>

text \<open>The coercion of one value, in the order of the source's \<^verbatim>\<open>if\<close> chain.\<close>

definition coerce :: "string \<Rightarrow> jsval" where
  "coerce v =
     (if CHR '','' \<in> set v then JArr (map (\<lambda>item. JStr (trim item)) (split (CHR '','') v))
      else if toLowerCase v = ''true'' then JBool True
      else if toLowerCase v = ''false'' then JBool False
      else if \<not> isNaN v then JNum (parseFloat v)
      else JStr v)"



text \<open>
  One step of the \<^verbatim>\<open>reduce\<close>: \<^verbatim>\<open>const [key, value] = pair.split(':').map(trim)\<close>. A
  pair without a colon leaves \<^verbatim>\<open>value\<close> undefined, and \<^verbatim>\<open>value.includes\<close> throws.
\<close>

definition reduce_pair ::
  "(string \<times> jsval) list \<Rightarrow> string \<Rightarrow> js_error + (string \<times> jsval) list" where
  "reduce_pair acc pair =
     (case map trim (split (CHR '':'') pair) of
        [] \<Rightarrow> Inl TypeError
      | [key] \<Rightarrow> Inl TypeError
      | key # v # others \<Rightarrow> Inr (set_property acc key (coerce v)))"

fun reduce_pairs ::
  "(string \<times> jsval) list \<Rightarrow> string list \<Rightarrow> js_error + (string \<times> jsval) list" where
  "reduce_pairs acc [] = Inr acc"
| "reduce_pairs acc (pair # pairs) =
     (case reduce_pair acc pair of Inl e \<Rightarrow> Inl e | Inr acc' \<Rightarrow> reduce_pairs acc' pairs)"

text \<open>\<^verbatim>\<open>value.split(';').map(pair => pair.trim()).filter(Boolean)\<close>, then the reduce.\<close>

definition keyValuePairs :: "string \<Rightarrow> string list" where
  "keyValuePairs v = filter (\<lambda>pair. pair \<noteq> []) (map trim (split (CHR '';'') v))"

definition parse_config :: "string \<Rightarrow> js_error + (string \<times> jsval) list" where
  "parse_config v = reduce_pairs [] (keyValuePairs v)"






text \<open>What a method returns when it does not return the parsed object.\<close>

datatype 'a js_return = ReturnUndefined | ReturnFalse | ReturnObject 'a

text \<open>
  \<^verbatim>\<open>#getConfigAttribute()\<close>, from the component's name and element: the first of the
  attributes \<^verbatim>\<open>name\<close> and \<^verbatim>\<open>data-name\<close> that the element has.
\<close>

definition find_attribute :: "element \<Rightarrow> string \<Rightarrow> string option" where
  "find_attribute el n = List.find (\<lambda>attr. hasAttribute el attr) [n, ''data-'' @ n]"

definition getConfigAttribute ::
  "string \<Rightarrow> element option \<Rightarrow> js_error + (string \<times> jsval) list js_return" where
  "getConfigAttribute n el_opt =
     (case el_opt of
        None \<Rightarrow> Inr ReturnUndefined
      | Some el \<Rightarrow>
          (case find_attribute el n of
             None \<Rightarrow> Inr ReturnFalse
           | Some attribute \<Rightarrow>
               if attribute = [] then Inr ReturnFalse
               else (case map_option trim (getAttribute el attribute) of
                       None \<Rightarrow> Inr ReturnUndefined
                     | Some v \<Rightarrow>
                         if v = [] then Inr ReturnUndefined
                         else (case parse_config v of
                                 Inl e \<Rightarrow> Inl e
                               | Inr jsObject \<Rightarrow> Inr (ReturnObject jsObject)))))"

section \<open>Deck\<close>

text \<open>
  The controller is a dispatcher with a keyed store. Its constructor rebinds
  \<^verbatim>\<open>this.state\<close> to a proxy around the store (\<open>deck_state\<close> here); every write through
  the proxy stores the value and then emits \<^verbatim>\<open>stateChange\<close> with the single written
  pair. The connection fields of the dispatcher part play no role in what follows.
\<close>

record 'cb Deck = "'cb Dispatcher" +
  deck_state :: "(string \<times> jsval) list"

definition Deck :: "string \<Rightarrow> (string \<times> jsval) list \<Rightarrow> 'cb Deck" where
  "Deck h initial =
     \<lparr>host = h, wss = None,
      state = \<lparr>reconnection = True, reconnectionDelay = 1000\<rparr>,
      events = [], deck_state = initial\<rparr>"

definition get_property :: "(string \<times> 'v) list \<Rightarrow> string \<Rightarrow> 'v property" where
  "get_property obj k =
     (case map_of obj k of
        Some v \<Rightarrow> Own v
      | None \<Rightarrow> if k \<in> set Object_prototype_names then Inherited else Undefined)"

definition getState :: "'cb Deck \<Rightarrow> string \<Rightarrow> jsval property" where
  "getState dk key = get_property (deck_state dk) key"

text \<open>\<^verbatim>\<open>setState(key, value)\<close>: the proxy's \<^verbatim>\<open>set\<close> trap.\<close>

definition setState :: "'cb Deck \<Rightarrow> string \<Rightarrow> jsval \<Rightarrow> 'cb Deck \<times> 'cb outcome" where
  "setState dk key v =
     (let dk' = dk\<lparr>deck_state := set_property (deck_state dk) key v\<rparr>
      in (dk', emit dk' ''stateChange'' (JObj [(key, v)])))"

section \<open>The component object\<close>

text \<open>
  The callbacks a component world puts on the bus: the closure a component's
  \<^verbatim>\<open>initState()\<close> subscribes (known by the component's identifier), and any other
  function.
\<close>

datatype callback = StateChange string | Handler nat

text \<open>
  The context record \<^verbatim>\<open>{name, element, deck}\<close> is merged onto the instance, so the
  instance extends it. \<open>cstate\<close> is the component's \<^verbatim>\<open>this.state\<close>; \<open>config\<close> holds the
  properties assigned from the element's attribute string. An attribute key that names
  one of the instance's own fields would overwrite that field; the model keeps every
  assigned key in \<open>config\<close>.
\<close>

record component_context =
  name :: string
  element :: "element option"
  deck :: "callback Deck option"

record component = component_context +
  dci :: string
  stateKey :: string
  cstate :: "(string \<times> jsval) list"
  config :: "(string \<times> jsval) list"

text \<open>
  The constructor; \<open>rnd\<close> is the random identifier. The attribute configuration is
  assigned twice (inside \<^verbatim>\<open>#getConfigAttribute\<close> and on its return); an error thrown by
  the parser leaves the constructor.
\<close>

definition add_class :: "element \<Rightarrow> string \<Rightarrow> element" where
  "add_class el c = (if c \<in> set (classList el) then el else el\<lparr>classList := classList el @ [c]\<rparr>)"

definition Component :: "string \<Rightarrow> component_context \<Rightarrow> js_error + component" where
  "Component rnd ctx =
     (case getConfigAttribute (name ctx) (element ctx) of
        Inl e \<Rightarrow> Inl e
      | Inr r \<Rightarrow>
          Inr \<lparr>name = name ctx,
               element = map_option (\<lambda>el. add_class el (name ctx)) (element ctx),
               deck = deck ctx,
               dci = rnd,
               stateKey = name ctx @ ''-'' @ rnd,
               cstate = [],
               config =
                 (case r of
                    ReturnObject jsObject \<Rightarrow> Object_assign (Object_assign [] jsObject) jsObject
                  | _ \<Rightarrow> [])\<rparr>)"

text \<open>
  The closure of \<^verbatim>\<open>initState()\<close>, run on the data of a \<^verbatim>\<open>stateChange\<close> emission:
  reading a property of \<^verbatim>\<open>undefined\<close> or \<^verbatim>\<open>null\<close> throws; a slice that is not
  \<^verbatim>\<open>undefined\<close> is spread over the local state. The hook \<^verbatim>\<open>onStateChange\<close> it then
  calls is the caller's and is not modelled.
\<close>

definition stateChange_listener :: "component \<Rightarrow> jsval \<Rightarrow> js_error + component" where
  "stateChange_listener c newState =
     (case newState of
        JUndefined \<Rightarrow> Inl TypeError
      | JNull \<Rightarrow> Inl TypeError
      | _ \<Rightarrow>
          (case get_property (own_enumerable newState) (stateKey c) of
             Own slice \<Rightarrow>
               if slice \<noteq> JUndefined then Inr (c\<lparr>cstate := spread (cstate c) slice\<rparr>) else Inr c
           | Inherited \<Rightarrow> Inr (c\<lparr>cstate := spread (cstate c) JUndefined\<rparr>)
           | Undefined \<Rightarrow> Inr c))"

text \<open>
  The calls of one emission, as they reach this component: its own closure runs, every
  other callback leaves the component alone. A throw ends the delivery.
\<close>

fun deliver :: "component \<Rightarrow> callback effect list \<Rightarrow> component \<times> js_error option" where
  "deliver c [] = (c, None)"
| "deliver c (Call (StateChange i) data # es) =
     (if i = dci c then
        (case stateChange_listener c data of
           Inl e \<Rightarrow> (c, Some e)
         | Inr c' \<Rightarrow> deliver c' es)
      else deliver c es)"
| "deliver c (e # es) = deliver c es"

text \<open>\<^verbatim>\<open>initState()\<close>.\<close>

definition initState :: "component \<Rightarrow> js_error + component" where
  "initState c =
     (case deck c of
        None \<Rightarrow> Inr c
      | Some dk \<Rightarrow>
          (let initialState =
                 (case getState dk (stateKey c) of
                    Own v \<Rightarrow> if truthy v then v else JObj []
                  | Inherited \<Rightarrow> JUndefined
                  | Undefined \<Rightarrow> JObj [])
           in case on dk ''stateChange'' (StateChange (dci c)) of
                Inl e \<Rightarrow> Inl e
              | Inr dk' \<Rightarrow> Inr (c\<lparr>cstate := spread [] initialState, deck := Some dk'\<rparr>)))"

text \<open>
  \<^verbatim>\<open>updateState(newState)\<close>: the merged record is computed and, with a deck, handed to
  \<^verbatim>\<open>setState\<close>; the callbacks of that emission run before the method returns. The
  method itself does not assign \<^verbatim>\<open>this.state\<close>.
\<close>

definition updateState :: "component \<Rightarrow> jsval \<Rightarrow> component \<times> callback outcome" where
  "updateState c newState =
     (let updatedState = spread (cstate c) newState in
      case deck c of
        None \<Rightarrow> (c, [], None)
      | Some dk \<Rightarrow>
          (let (dk', calls, err) = setState dk (stateKey c) (JObj updatedState) in
           case err of
             Some e \<Rightarrow> (c\<lparr>deck := Some dk'\<rparr>, calls, Some e)
           | None \<Rightarrow>
               (let (c', err') = deliver (c\<lparr>deck := Some dk'\<rparr>) calls in (c', calls, err'))))"

text \<open>
  \<^verbatim>\<open>dispatchEvent(eventName, detail, isCustom, context)\<close>: the returned value
  (\<open>None\<close> for \<^verbatim>\<open>undefined\<close> or when the method throws), the component afterwards and
  what was published on the bus.
\<close>

definition dispatchEvent ::
  "component \<Rightarrow> string \<Rightarrow> jsval \<Rightarrow> bool \<Rightarrow> element option \<Rightarrow>
     bool option \<times> component \<times> callback outcome" where
  "dispatchEvent c evName detail isCustom ctx =
     (case ctx of
        None \<Rightarrow> (None, c, [], None)
      | Some el \<Rightarrow>
          (let (dispatched, defaultPrevented) = dom_dispatchEvent el evName in
           if \<not> dispatched \<or> defaultPrevented then (Some False, c, [], None)
           else (case deck c of
                   None \<Rightarrow> (Some True, c, [], None)
                 | Some dk \<Rightarrow>
                     (let (calls, err) = emit dk evName detail in
                      case err of
                        Some e \<Rightarrow> (None, c, calls, Some e)
                      | None \<Rightarrow>
                          (let (c', err') = deliver c calls in
                           case err' of
                             Some e \<Rightarrow> (None, c', calls, Some e)
                           | None \<Rightarrow> (Some True, c', calls, None))))))"

text \<open>The call with the defaults \<^verbatim>\<open>detail = null, isCustom = false, context = this.element\<close>.\<close>

definition dispatchEvent_default ::
  "component \<Rightarrow> string \<Rightarrow> bool option \<times> component \<times> callback outcome" where
  "dispatchEvent_default c evName = dispatchEvent c evName JNull False (element c)"

section \<open>Properties of the dispatcher\<close>

lemma indexOf_mem: "(indexOf xs y > -1) = (y \<in> set xs)"
  by (induction xs) (auto simp: Let_def)

lemma indexOf_bounds: "- 1 \<le> indexOf xs y \<and> indexOf xs y < int (length xs)"
  by (induction xs) (auto simp: Let_def)

lemma splice1_indexOf: "y \<in> set xs \<Longrightarrow> splice1 xs (nat (indexOf xs y)) = remove1 y xs"
proof (induction xs)
  case Nil
  then show ?case by simp
next
  case (Cons x xs)
  show ?case
  proof (cases "x = y")
    case True
    then show ?thesis by (simp add: splice1_def)
  next
    case False
    with Cons.prems have mem: "y \<in> set xs" by simp
    then have pos: "indexOf xs y > -1" by (simp add: indexOf_mem)
    then have "nat (indexOf xs y + 1) = Suc (nat (indexOf xs y))" by simp
    with False pos Cons.IH [OF mem] show ?thesis
      by (simp add: splice1_def Let_def)
  qed
qed

lemma unregisterCallback_remove1:
  "callbacks (unregisterCallback e cb) = remove1 cb (callbacks e)"
proof (cases "cb \<in> set (callbacks e)")
  case True
  then show ?thesis
    by (simp add: unregisterCallback_def Let_def indexOf_mem splice1_indexOf)
next
  case False
  then show ?thesis
    by (simp add: unregisterCallback_def Let_def indexOf_mem remove1_idem)
qed


subsection \<open>The event table\<close>

lemma map_of_set_event: "map_of (set_event tbl n e) k = (if k = n then Some e else map_of tbl k)"
  by (induction tbl) auto

lemma delete_set_event_fresh:
  "map_of tbl n = None \<Longrightarrow> delete_event (set_event tbl n e) n = tbl"
  by (induction tbl) (auto simp: delete_event_def split: if_splits)

lemma map_of_delete_event: "map_of (delete_event tbl n) k = (if k = n then None else map_of tbl k)"
  by (induction tbl) (auto simp: delete_event_def)

lemma get_event_own: "map_of tbl n = Some e \<Longrightarrow> get_event tbl n = Own e"
  by (simp add: get_event_def)

lemma get_event_absent:
  "map_of tbl n = None \<Longrightarrow>
   get_event tbl n = (if n \<in> set Object_prototype_names then Inherited else Undefined)"
  by (simp add: get_event_def)

text \<open>
  C6: \<^verbatim>\<open>on(name, cb)\<close> followed by \<^verbatim>\<open>off(name, cb)\<close>, with no other registration under
  the name, leaves the table without an entry for the name. The dispatcher is then exactly
  what it was before; the two calls complete without error unless the name is that of an
  inherited member, where \<^verbatim>\<open>on\<close> throws before it changes anything.
\<close>

theorem on_off_roundtrip:
  assumes "map_of (events d) n = None"
  shows "map_of (events (fst (on_then_off d n cb))) n = None \<and>
         fst (on_then_off d n cb) = d \<and>
         (snd (on_then_off d n cb) = None) = (n \<notin> set Object_prototype_names)"
proof (cases "n \<in> set Object_prototype_names")
  case True
  with assms have "on d n cb = Inl TypeError"
    by (simp add: on_def get_event_absent)
  with assms True show ?thesis
    by (simp add: on_then_off_def)
next
  case False
  define e where "e = registerCallback (DispatcherEvent n) cb"
  define d1 where "d1 = d\<lparr>events := set_event (events d) n e\<rparr>"
  have cbs: "callbacks e = [cb]"
    by (simp add: e_def registerCallback_def DispatcherEvent_def)
  from assms False have on_eq: "on d n cb = Inr d1"
    by (simp add: on_def get_event_absent d1_def e_def)
  have "get_event (events d1) n = Own e"
    by (simp add: d1_def get_event_own map_of_set_event)
  moreover have "callbacks (unregisterCallback e cb) = []"
    by (simp add: unregisterCallback_remove1 cbs)
  ultimately have "off d1 n cb = Inr (d1\<lparr>events := delete_event (events d1) n\<rparr>)"
    by (simp add: off_def cbs Let_def)
  moreover have "d1\<lparr>events := delete_event (events d1) n\<rparr> = d"
    using assms by (simp add: d1_def delete_set_event_fresh)
  ultimately have "on_then_off d n cb = (d, None)"
    using on_eq by (simp add: on_then_off_def)
  with assms False show ?thesis by simp
qed

theorem on_off_roundtrip_witness:
  "map_of (events (Dispatcher ''example.org'' :: nat Dispatcher)) ''feed:42'' = None \<and>
   on_then_off (Dispatcher ''example.org'' :: nat Dispatcher) ''feed:42'' 7 =
     (Dispatcher ''example.org'', None)"
proof -
  have h: "map_of (events (Dispatcher ''example.org'' :: nat Dispatcher)) ''feed:42'' = None"
    by (simp add: Dispatcher_def)
  have "''feed:42'' \<notin> set Object_prototype_names"
    by (simp add: Object_prototype_names_def)
  with on_off_roundtrip [OF h, of 7] h show ?thesis
    by (simp add: prod_eq_iff)
qed

subsection \<open>The connection\<close>

lemma emit_no_error:
  "n \<notin> set Object_prototype_names \<Longrightarrow> snd (emit d n data) = None"
  by (simp add: emit_def get_event_def split: option.splits property.splits)

lemma wssDisconnect_not_inherited: "''wssDisconnect'' \<notin> set Object_prototype_names"
  by (simp add: Object_prototype_names_def)

lemma onclose_effects:
  "onclose d =
     (DocumentEvent ''deck.wss.close'' # fst (emit d ''wssDisconnect'' JUndefined) @
      (if reconnection (state d) \<and> (case wss d of None \<Rightarrow> True | Some s \<Rightarrow> readyState s = 3)
       then [SetTimeout Reconnect None] else []),
      None)"
proof (cases "emit d ''wssDisconnect'' JUndefined")
  case (Pair calls err)
  with emit_no_error [OF wssDisconnect_not_inherited, of d JUndefined] have "err = None"
    by simp
  with Pair show ?thesis
    by (simp add: onclose_def this_reconnectionDelay_def)
qed

lemma emit_only_calls: "e \<in> set (fst (emit d n data)) \<Longrightarrow> \<exists>cb. e = Call cb data"
  by (auto simp: emit_def fire_def split: property.splits if_splits)

text \<open>With the flag cleared, a close event sets no timer.\<close>

lemma onclose_flag_cleared:
  "\<not> reconnection (state d) \<Longrightarrow> SetTimeout a ms \<notin> set (fst (onclose d))"
  using emit_only_calls [of "SetTimeout a ms" d "''wssDisconnect''" JUndefined]
  by (auto simp: onclose_effects)

text \<open>On an open socket \<^verbatim>\<open>disconnect()\<close> clears the flag and starts the closing handshake.\<close>

lemma disconnect_open:
  "wss d = Some s \<Longrightarrow> readyState s = OPEN \<Longrightarrow>
   disconnect d =
     (d\<lparr>state := (state d)\<lparr>reconnection := False\<rparr>, wss := Some (s\<lparr>readyState := CLOSING\<rparr>)\<rparr>,
      None)"
  by (simp add: disconnect_def ws_close_def OPEN_def CLOSING_def CLOSED_def)

text \<open>On a socket in any other state it does nothing at all.\<close>

lemma disconnect_not_open:
  "wss d = Some s \<Longrightarrow> readyState s \<noteq> OPEN \<Longrightarrow> disconnect d = (d, None)"
  by (simp add: disconnect_def)

text \<open>
  C1 fails on the code: \<^verbatim>\<open>disconnect()\<close> writes the flag inside its guard. Called while
  the socket is still connecting, it leaves the flag set; when that socket then closes,
  the close handler sets the reconnect timer.
\<close>

theorem disconnect_while_connecting_reconnects:
  "disconnect (connect (Dispatcher h :: 'cb Dispatcher)) = (connect (Dispatcher h :: 'cb Dispatcher), None) \<and>
   reconnection (state (fst (disconnect (connect (Dispatcher h :: 'cb Dispatcher))))) \<and>
   onclose (socket_closes (fst (disconnect (connect (Dispatcher h :: 'cb Dispatcher))))) =
     ([DocumentEvent ''deck.wss.close'', SetTimeout Reconnect None], None)"
proof -
  have same: "disconnect (connect (Dispatcher h :: 'cb Dispatcher)) = (connect (Dispatcher h :: 'cb Dispatcher), None)"
    by (simp add: disconnect_def connect_def Dispatcher_def WebSocket_def CONNECTING_def OPEN_def)
  have flag: "reconnection (state (connect (Dispatcher h :: 'cb Dispatcher)))"
    by (simp add: connect_def Dispatcher_def)
  have "fst (emit (socket_closes (connect (Dispatcher h :: 'cb Dispatcher))) ''wssDisconnect'' JUndefined) = []"
    by (simp add: emit_def get_event_def socket_closes_def connect_def Dispatcher_def
        Object_entries_def Object_prototype_names_def)
  then have "onclose (socket_closes (connect (Dispatcher h :: 'cb Dispatcher))) =
      ([DocumentEvent ''deck.wss.close'', SetTimeout Reconnect None], None)"
    by (simp add: onclose_effects)
      (simp add: socket_closes_def connect_def Dispatcher_def ws_closed_def CLOSED_def)
  with same flag show ?thesis by simp
qed

text \<open>
  C2 fails on the code: the close handler of a fresh dispatcher sets exactly one timer, after
  the local \<^verbatim>\<open>wssDisconnect\<close> emission, but the delay it passes is \<^verbatim>\<open>undefined\<close>
  (0 milliseconds), not the 1000 milliseconds stored in the dispatcher's state.
\<close>

theorem onclose_delay_undefined:
  "onclose (socket_closes (connect (Dispatcher h :: 'cb Dispatcher))) =
     ([DocumentEvent ''deck.wss.close'', SetTimeout Reconnect None], None) \<and>
   reconnectionDelay (state (socket_closes (connect (Dispatcher h :: 'cb Dispatcher)))) = 1000 \<and>
   timeout_ms None = 0"
proof -
  have "fst (emit (socket_closes (connect (Dispatcher h :: 'cb Dispatcher))) ''wssDisconnect'' JUndefined) = []"
    by (simp add: emit_def get_event_def socket_closes_def connect_def Dispatcher_def
        Object_entries_def Object_prototype_names_def)
  then have "onclose (socket_closes (connect (Dispatcher h :: 'cb Dispatcher))) =
      ([DocumentEvent ''deck.wss.close'', SetTimeout Reconnect None], None)"
    by (simp add: onclose_effects)
      (simp add: socket_closes_def connect_def Dispatcher_def ws_closed_def CLOSED_def)
  moreover have "reconnectionDelay (state (socket_closes (connect (Dispatcher h :: 'cb Dispatcher)))) = 1000"
    by (simp add: socket_closes_def connect_def Dispatcher_def)
  ultimately show ?thesis by (simp add: timeout_ms_def)
qed

text \<open>
  C10: \<^verbatim>\<open>disconnect()\<close> on a dispatcher whose socket handle is null takes the guarded
  branch, clears the flag and then throws a \<^verbatim>\<open>TypeError\<close> on \<^verbatim>\<open>this.wss.close()\<close>.
\<close>

theorem disconnect_null_throws:
  "wss d = None \<Longrightarrow>
   disconnect d = (d\<lparr>state := (state d)\<lparr>reconnection := False\<rparr>\<rparr>, Some TypeError)"
  by (simp add: disconnect_def)

theorem disconnect_null_throws_witness:
  "wss (Dispatcher ''example.org'' :: nat Dispatcher) = None \<and>
   snd (disconnect (Dispatcher ''example.org'' :: nat Dispatcher)) = Some TypeError"
proof -
  have h: "wss (Dispatcher ''example.org'' :: nat Dispatcher) = None"
    by (simp add: Dispatcher_def)
  from disconnect_null_throws [OF h] h show ?thesis by simp
qed

text \<open>
  C9: \<^verbatim>\<open>send(data)\<close> never throws; it hands the serialised data to the socket exactly
  when there is a socket and it is open, and otherwise leaves the dispatcher as it was
  (nothing is queued).
\<close>

theorem send_iff_open:
  "snd (send JSON_stringify d data) = None \<and>
   (if (\<exists>s. wss d = Some s \<and> readyState s = OPEN)
    then transmitted (fst (send JSON_stringify d data)) = transmitted d @ [JSON_stringify data]
    else fst (send JSON_stringify d data) = d)"
  by (cases "wss d") (auto simp: send_def ws_send_def transmitted_def OPEN_def CONNECTING_def)


subsection \<open>Wildcard patterns\<close>

lemma escaped_class_syntax: "c \<in> set syntax_characters \<Longrightarrow> c \<in> set escaped_class"
  by (auto simp: syntax_characters_def escaped_class_def)

lemma rx_parse_plain:
  "c \<notin> set escaped_class \<Longrightarrow> rx_parse (c # rest) = map_option ((#) (Lit c)) (rx_parse rest)"
proof -
  assume a: "c \<notin> set escaped_class"
  then have ns: "c \<notin> set syntax_characters" using escaped_class_syntax by blast
  from a have nb: "c \<noteq> backslash" and nd: "c \<noteq> CHR ''.''"
    by (auto simp: escaped_class_def)
  show ?thesis
    using ns nb nd by (cases rest) simp_all
qed

lemma rx_parse_escape:
  "c \<in> set escaped_class \<Longrightarrow>
   rx_parse (backslash # c # rest) = map_option ((#) (Lit c)) (rx_parse rest)"
  by simp

lemma rx_parse_dotstar: "rx_parse (CHR ''.'' # CHR ''*'' # rest) = map_option ((#) DotStar) (rx_parse rest)"
  by (simp add: backslash_def)

lemma rx_parse_escaped:
  "rx_parse (escaped s @ rest) = map_option ((@) (map Lit s)) (rx_parse rest)"
proof (induction s)
  case Nil
  then show ?case by (simp add: escaped_def option.map_ident)
next
  case (Cons c s)
  have step: "escaped (c # s) = (if c \<in> set escaped_class then [backslash, c] else [c]) @ escaped s"
    by (simp add: escaped_def)
  show ?case
  proof (cases "c \<in> set escaped_class")
    case True
    then show ?thesis
      using Cons.IH by (simp add: step option.map_comp comp_def del: rx_parse.simps)
        (simp add: rx_parse_escape option.map_comp comp_def del: rx_parse.simps)
  next
    case False
    then show ?thesis
      using Cons.IH by (simp add: step rx_parse_plain option.map_comp comp_def del: rx_parse.simps)
  qed
qed


lemma split_nonempty: "split c s \<noteq> []"
  by (induction s) (auto split: list.splits)

lemma split_Cons:
  "split c (x # xs) =
     (if x = c then [] # split c xs else (x # hd (split c xs)) # tl (split c xs))"
  using split_nonempty [of c xs] by (cases "split c xs") auto

lemma join_append_head: "join sep ((a @ b) # ys) = a @ join sep (b # ys)"
  by (cases ys) auto

lemma join_Nil_head: "ys \<noteq> [] \<Longrightarrow> join sep ([] # ys) = sep @ join sep ys"
  by (cases ys) auto

lemma escaped_Cons: "escaped (x # w) = escaped [x] @ escaped w"
  by (simp add: escaped_def)


lemma rx_parse_wildcard_body:
  "rx_parse (join ''.*'' (map escaped (split (CHR ''*'') p)) @ rest) =
     map_option ((@) (wildcard_rx p)) (rx_parse rest)"
proof (induction p)
  case Nil
  then show ?case by (simp add: escaped_def wildcard_rx_def option.map_ident)
next
  case (Cons x p)
  obtain w ws where sp: "split (CHR ''*'') p = w # ws"
    using split_nonempty [of "CHR ''*''" p] by (cases "split (CHR ''*'') p") auto
  show ?case
  proof (cases "x = CHR ''*''")
    case True
    have "join ''.*'' (map escaped (split (CHR ''*'') (x # p))) =
          ''.*'' @ join ''.*'' (map escaped (split (CHR ''*'') p))"
      using True sp by (simp add: escaped_def)
    then show ?thesis
      using Cons.IH True
      by (simp add: rx_parse_dotstar wildcard_rx_def option.map_comp comp_def del: rx_parse.simps)
  next
    case False
    have "join ''.*'' (map escaped (split (CHR ''*'') (x # p))) =
          escaped [x] @ join ''.*'' (map escaped (split (CHR ''*'') p))"
      using False sp join_append_head [of "''.*''" "escaped [x]" "escaped w" "map escaped ws"]
      by (simp add: escaped_Cons [of x w])
    then show ?thesis
      using Cons.IH False rx_parse_escaped [of "[x]"]
      by (simp add: wildcard_rx_def option.map_comp comp_def del: rx_parse.simps)
  qed
qed

lemma RegExp_wildcard_source: "RegExp (wildcard_source p) = Some (wildcard_rx p)"
proof -
  have "rx_parse (join ''.*'' (map escaped (split (CHR ''*'') p)) @ []) =
        map_option ((@) (wildcard_rx p)) (rx_parse [])"
    by (rule rx_parse_wildcard_body)
  then show ?thesis
    by (simp add: RegExp_def wildcard_source_def)
qed

lemma bex_upt_Suc: "(\<exists>k \<in> set [0 ..< Suc n]. P k) = (\<exists>k. k \<le> n \<and> P k)"
proof -
  have "set [0 ..< Suc n] = {k. k \<le> n}"
    by (auto simp del: upt_Suc)
  then show ?thesis by (simp del: upt_Suc)
qed

lemma rx_match_dotstar_le:
  "rx_match (DotStar # r) s =
     (\<exists>k. k \<le> length s \<and> (\<forall>x \<in> set (take k s). \<not> line_terminator x) \<and>
          rx_match r (drop k s))"
proof (induction s)
  case Nil
  then show ?case by simp
next
  case (Cons x s)
  let ?P = "\<lambda>k t. k \<le> length t \<and> (\<forall>y \<in> set (take k t). \<not> line_terminator y) \<and>
                  rx_match r (drop k t)"
  have "(\<exists>k. ?P k (x # s)) = (rx_match r (x # s) \<or> (\<not> line_terminator x \<and> (\<exists>k. ?P k s)))"
  proof
    assume "\<exists>k. ?P k (x # s)"
    then obtain k where k: "?P k (x # s)" by blast
    show "rx_match r (x # s) \<or> (\<not> line_terminator x \<and> (\<exists>k. ?P k s))"
    proof (cases k)
      case 0
      with k show ?thesis by simp
    next
      case (Suc j)
      with k have "?P j s" and "\<not> line_terminator x" by simp_all
      then show ?thesis by blast
    qed
  next
    assume "rx_match r (x # s) \<or> (\<not> line_terminator x \<and> (\<exists>k. ?P k s))"
    then show "\<exists>k. ?P k (x # s)"
    proof
      assume "rx_match r (x # s)"
      then have "?P 0 (x # s)" by simp
      then show ?thesis by blast
    next
      assume "\<not> line_terminator x \<and> (\<exists>k. ?P k s)"
      then obtain k where "\<not> line_terminator x" and "?P k s" by blast
      then have "?P (Suc k) (x # s)" by simp
      then show ?thesis by blast
    qed
  qed
  with Cons.IH show ?case by simp
qed

lemma rx_match_dotstar:
  "rx_match (DotStar # r) s =
     (\<exists>k \<in> set [0 ..< Suc (length s)].
        (\<forall>x \<in> set (take k s). \<not> line_terminator x) \<and> rx_match r (drop k s))"
  unfolding bex_upt_Suc by (rule rx_match_dotstar_le)

lemma rx_match_glob: "rx_match (wildcard_rx p) s = glob p s"
proof (induction p arbitrary: s)
  case Nil
  then show ?case by (simp add: wildcard_rx_def)
next
  case (Cons c p)
  show ?case
  proof (cases "c = CHR ''*''")
    case True
    have "wildcard_rx (c # p) = DotStar # wildcard_rx p"
      using True by (simp add: wildcard_rx_def)
    then show ?thesis
      using True Cons.IH by (simp add: rx_match_dotstar del: rx_match.simps)
  next
    case False
    have "wildcard_rx (c # p) = Lit c # wildcard_rx p"
      using False by (simp add: wildcard_rx_def)
    then show ?thesis
      using False Cons.IH by (simp split: list.splits)
  qed
qed

lemma wildcard_test_glob: "wildcard_test p s = glob p s"
  by (simp add: wildcard_test_def RegExp_wildcard_source rx_match_glob)


text \<open>The wildcard does not reach across a line terminator.\<close>

lemma wildcard_stops_at_line_terminator:
  "\<not> wildcard_test ''feed:*'' (''feed:'' @ [CHR 0x0A])"
  by (simp add: wildcard_test_glob rx_match_glob [symmetric] wildcard_rx_def line_terminator_def)

subsection \<open>Registration histories and the order of delivery\<close>























text \<open>For the name of an inherited member, \<^verbatim>\<open>emit\<close> throws and calls nothing.\<close>

lemma emit_inherited_throws:
  "n \<in> set Object_prototype_names \<Longrightarrow> map_of (events d) n = None \<Longrightarrow>
   emit d n data = ([], Some TypeError)"
  by (simp add: emit_def get_event_def)

lemma emit_constructor_throws:
  "emit (Dispatcher h) ''constructor'' data = ([], Some TypeError)"
  by (simp add: emit_inherited_throws Object_prototype_names_def Dispatcher_def)







section \<open>Properties of the component\<close>

subsection \<open>The attribute parser and the constructor\<close>









text \<open>Splitting, joining and trimming.\<close>

lemma split_without: "c \<notin> set s \<Longrightarrow> split c s = [s]"
  by (induction s) auto



























text \<open>A pair without a colon makes the reduce step throw.\<close>

lemma reduce_pair_no_colon: "CHR '':'' \<notin> set pair \<Longrightarrow> reduce_pair acc pair = Inl TypeError"
  by (simp add: reduce_pair_def split_without)

text \<open>
  C5 fails on the code: a pair without a colon is not dropped. The destructured value is
  \<^verbatim>\<open>undefined\<close>, \<^verbatim>\<open>value.includes(',')\<close> throws a \<^verbatim>\<open>TypeError\<close>, and the constructor
  throws with it.
\<close>

theorem construction_throws_on_pair_without_colon:
  "Component ''k3v9x2q''
     \<lparr>name = ''modal'',
      element = Some \<lparr>attributes = [(''data-modal'', ''size:large;closable'')],
                      classList = [], listeners = []\<rparr>,
      deck = None\<rparr> = Inl TypeError"
  by code_simp

text \<open>A pair with an empty value is not dropped either: the key is kept, with \<^verbatim>\<open>NaN\<close>.\<close>

lemma empty_value_is_kept_as_NaN: "parse_config ''a:'' = Inr [(''a'', JNum NaN)]"
  by code_simp

text \<open>The key \<^verbatim>\<open>__proto__\<close> leaves no property.\<close>

lemma proto_key_is_lost: "parse_config ''__proto__:1;a:2'' = Inr [(''a'', JNum (Finite 2))]"
  by code_simp

text \<open>Only the text between the first and the second colon becomes the value.\<close>

lemma value_is_cut_at_second_colon: "parse_config ''url:http://x'' = Inr [(''url'', JStr ''http'')]"
  by code_simp

text \<open>What is dropped silently are the pairs that are empty after trimming.\<close>

lemma empty_pairs_are_dropped: "parse_config ''a:1;;  ;b:2'' = parse_config ''a:1;b:2''"
  by code_simp

subsection \<open>State and events of a component\<close>

text \<open>
  C8 fails on the code: \<^verbatim>\<open>updateState\<close> computes the merged record but never assigns it
  to \<^verbatim>\<open>this.state\<close>. Without a deck the call changes nothing, so the local state does not
  reflect the merge.
\<close>

theorem updateState_without_deck:
  "updateState (c\<lparr>deck := None\<rparr>) newState = (c\<lparr>deck := None\<rparr>, [], None) \<and>
   cstate (fst (updateState (c\<lparr>deck := None, cstate := []\<rparr>) (JObj [(''open'', JBool True)]))) = [] \<and>
   spread [] (JObj [(''open'', JBool True)]) = [(''open'', JBool True)]"
  by (simp add: updateState_def spread_def own_enumerable_def)

text \<open>
  With a deck the merged record is stored under the state key and published; the local
  state follows only through the subscription that \<^verbatim>\<open>initState()\<close> made on the bus.
\<close>

lemma map_of_put: "map_of (put obj k v) k' = (if k' = k then Some v else map_of obj k')"
  by (induction obj) auto

lemma stateChange_listener_keeps_deck:
  assumes "stateChange_listener c newState = Inr c'"
  shows "deck c' = deck c"
proof (cases "get_property (own_enumerable newState) (stateKey c)")
  case Undefined
  with assms show ?thesis
    by (cases newState) (simp_all add: stateChange_listener_def)
next
  case (Own slice)
  with assms show ?thesis
    by (cases newState; cases "slice = JUndefined") (auto simp: stateChange_listener_def)
next
  case Inherited
  with assms show ?thesis
    by (cases newState) (auto simp: stateChange_listener_def)
qed

lemma deliver_keeps_deck: "deliver c es = (c', err) \<Longrightarrow> deck c' = deck c"
proof (induction c es arbitrary: c' err rule: deliver.induct)
  case (1 c)
  then show ?case by simp
next
  case (2 c i data es)
  show ?case
  proof (cases "i = dci c")
    case True
    show ?thesis
    proof (cases "stateChange_listener c data")
      case (Inl e)
      with True "2.prems" show ?thesis by simp
    next
      case (Inr c1)
      with True "2.prems" have "deliver c1 es = (c', err)" by simp
      with "2.IH"(1) [OF True Inr] have "deck c' = deck c1" by simp
      with stateChange_listener_keeps_deck [OF Inr] show ?thesis by simp
    qed
  next
    case False
    with "2.prems" "2.IH"(2) show ?thesis by simp
  qed
qed simp_all

lemma updateState_deck:
  assumes "deck c = Some dk"
  shows "deck (fst (updateState c newState)) =
         Some (dk\<lparr>deck_state :=
                  set_property (deck_state dk) (stateKey c) (JObj (spread (cstate c) newState))\<rparr>)"
proof -
  let ?dk' = "dk\<lparr>deck_state :=
                  set_property (deck_state dk) (stateKey c) (JObj (spread (cstate c) newState))\<rparr>"
  obtain calls err where em:
    "emit ?dk' ''stateChange'' (JObj [(stateKey c, JObj (spread (cstate c) newState))]) = (calls, err)"
    by (cases "emit ?dk' ''stateChange'' (JObj [(stateKey c, JObj (spread (cstate c) newState))])")
  show ?thesis
  proof (cases err)
    case None
    obtain c' err' where dl: "deliver (c\<lparr>deck := Some ?dk'\<rparr>) calls = (c', err')"
      by (cases "deliver (c\<lparr>deck := Some ?dk'\<rparr>) calls")
    from deliver_keeps_deck [OF dl] have "deck c' = Some ?dk'" by simp
    with assms em None dl show ?thesis
      by (simp add: updateState_def setState_def Let_def)
  next
    case (Some e)
    with assms em show ?thesis
      by (simp add: updateState_def setState_def Let_def)
  qed
qed

lemma updateState_with_deck:
  "deck c = Some dk \<Longrightarrow> stateKey c \<noteq> ''__proto__'' \<Longrightarrow>
   map_of (deck_state (the (deck (fst (updateState c newState))))) (stateKey c) =
     Some (JObj (spread (cstate c) newState))"
  by (simp add: updateState_deck set_property_def map_of_put)

text \<open>The merge does reach the local state of a component that has a deck and has called
  \<^verbatim>\<open>initState()\<close>; without that call it does not.\<close>

lemma updateState_after_initState:
  "(case Component ''k3v9x2q'' \<lparr>name = ''modal'', element = None, deck = Some (Deck ''example.org'' [])\<rparr> of
      Inl e \<Rightarrow> False
    | Inr c0 \<Rightarrow>
        (case initState c0 of
           Inl e \<Rightarrow> False
         | Inr c1 \<Rightarrow>
             cstate (fst (updateState c1 (JObj [(''open'', JBool True)]))) = [(''open'', JBool True)] \<and>
             cstate (fst (updateState c0 (JObj [(''open'', JBool True)]))) = []))"
  by code_simp

text \<open>
  C7: when a listener cancels the DOM event, \<^verbatim>\<open>dispatchEvent\<close> returns \<^verbatim>\<open>false\<close>,
  publishes nothing on the bus and leaves the component as it was; it returns \<^verbatim>\<open>true\<close>
  or publishes only when the event was not canceled, and then, with a deck, it publishes
  the same name and detail and returns \<^verbatim>\<open>true\<close>.
\<close>

theorem dispatchEvent_canceled:
  "(canceled el evName \<longrightarrow>
      dispatchEvent c evName detail isCustom (Some el) = (Some False, c, [], None)) \<and>
   (fst (dispatchEvent c evName detail isCustom (Some el)) = Some True \<longrightarrow>
      \<not> canceled el evName) \<and>
   (fst (snd (snd (dispatchEvent c evName detail isCustom (Some el)))) \<noteq> [] \<longrightarrow>
      \<not> canceled el evName) \<and>
   (\<not> canceled el evName \<and> deck c = Some dk \<and> snd (emit dk evName detail) = None \<and>
    snd (deliver c (fst (emit dk evName detail))) = None \<longrightarrow>
      dispatchEvent c evName detail isCustom (Some el) =
        (Some True, fst (deliver c (fst (emit dk evName detail))),
         fst (emit dk evName detail), None))"
  by (auto simp: dispatchEvent_def dom_dispatchEvent_def split: option.splits prod.splits)

theorem dispatchEvent_canceled_witness:
  "dispatchEvent
     \<lparr>name = ''modal'', element = None,
      deck = Some ((Deck ''example.org'' [])
               \<lparr>events := [(''open'', \<lparr>eventName = ''open'', callbacks = [Handler 1]\<rparr>)]\<rparr>),
      dci = ''k3v9x2q'', stateKey = ''modal-k3v9x2q'', cstate = [], config = []\<rparr>
     ''open'' JNull False
     (Some \<lparr>attributes = [], classList = [''modal''], listeners = [(''open'', True)]\<rparr>) =
   (Some False,
    \<lparr>name = ''modal'', element = None,
      deck = Some ((Deck ''example.org'' [])
               \<lparr>events := [(''open'', \<lparr>eventName = ''open'', callbacks = [Handler 1]\<rparr>)]\<rparr>),
      dci = ''k3v9x2q'', stateKey = ''modal-k3v9x2q'', cstate = [], config = []\<rparr>,
    [], None) \<and>
   dispatchEvent
     \<lparr>name = ''modal'', element = None,
      deck = Some ((Deck ''example.org'' [])
               \<lparr>events := [(''open'', \<lparr>eventName = ''open'', callbacks = [Handler 1]\<rparr>)]\<rparr>),
      dci = ''k3v9x2q'', stateKey = ''modal-k3v9x2q'', cstate = [], config = []\<rparr>
     ''open'' JNull False
     (Some \<lparr>attributes = [], classList = [''modal''], listeners = [(''close'', True)]\<rparr>) =
   (Some True,
    \<lparr>name = ''modal'', element = None,
      deck = Some ((Deck ''example.org'' [])
               \<lparr>events := [(''open'', \<lparr>eventName = ''open'', callbacks = [Handler 1]\<rparr>)]\<rparr>),
      dci = ''k3v9x2q'', stateKey = ''modal-k3v9x2q'', cstate = [], config = []\<rparr>,
    [Call (Handler 1) JNull], None)"
proof -
  let ?dk = "(Deck ''example.org'' [])
               \<lparr>events := [(''open'', \<lparr>eventName = ''open'', callbacks = [Handler 1]\<rparr>)]\<rparr>"
  let ?c = "\<lparr>name = ''modal'', element = None, deck = Some ?dk,
      dci = ''k3v9x2q'', stateKey = ''modal-k3v9x2q'', cstate = [], config = []\<rparr>"
  let ?vetoed = "\<lparr>attributes = [], classList = [''modal''], listeners = [(''open'', True)]\<rparr>"
  let ?free = "\<lparr>attributes = [], classList = [''modal''], listeners = [(''close'', True)]\<rparr>"
  have veto: "canceled ?vetoed ''open''"
    by (simp add: canceled_def)
  have free: "\<not> canceled ?free ''open''"
    by (simp add: canceled_def)
  have bus: "deck ?c = Some ?dk" by simp
  have published: "emit ?dk ''open'' JNull = ([Call (Handler 1) JNull], None)"
    by code_simp
  have delivered: "deliver ?c [Call (Handler 1) JNull] = (?c, None)"
    by simp
  have first: "dispatchEvent ?c ''open'' JNull False (Some ?vetoed) = (Some False, ?c, [], None)"
    using dispatchEvent_canceled [of ?vetoed "''open''" ?c JNull False ?dk] veto by blast
  have "dispatchEvent ?c ''open'' JNull False (Some ?free) =
        (Some True, fst (deliver ?c (fst (emit ?dk ''open'' JNull))),
         fst (emit ?dk ''open'' JNull), None)"
    using dispatchEvent_canceled [of ?free "''open''" ?c JNull False ?dk] free bus
    unfolding published by (simp only: fst_conv snd_conv delivered simp_thms)
  then have second: "dispatchEvent ?c ''open'' JNull False (Some ?free) =
        (Some True, ?c, [Call (Handler 1) JNull], None)"
    unfolding published by (simp only: fst_conv delivered)
  from first second show ?thesis by (rule conjI)
qed
end
